theory Spec2Isabelle
  imports Main
begin

section \<open>Values of the JavaScript runtime\<close>

text \<open>
  The two route modules \<^verbatim>\<open>routes/index.tsx\<close> and \<^verbatim>\<open>routes/[dinosaur].tsx\<close> work on
  whatever \<^verbatim>\<open>JSON.parse\<close> returns. A parsed value is one of the six JSON kinds. The
  payload of a number is never inspected by the program, so it is a type parameter.
  An object is an association list read with \<open>map_of\<close>. Strings are compared for
  equality only (and lower-cased by the runtime), so \<open>string\<close> stands for the
  JavaScript string type.
\<close>

datatype 'n json =
    JNull
  | JBool bool
  | JNum 'n
  | JStr string
  | JArr "'n json list"
  | JObj "(string \<times> 'n json) list"

text \<open>A JavaScript value that may be \<^verbatim>\<open>undefined\<close>: \<open>None\<close> is \<^verbatim>\<open>undefined\<close>.\<close>

type_synonym 'n jsval = "'n json option"

text \<open>
  The only exception the code of the two modules can raise by itself is a
  \<^verbatim>\<open>TypeError\<close> (a property read on \<^verbatim>\<open>null\<close> or \<^verbatim>\<open>undefined\<close>, a call of something that
  is not a function). An expression that may throw returns \<open>defect + 'a\<close>.
\<close>

datatype defect = TypeError

fun typeof :: "'n jsval \<Rightarrow> string" where
  "typeof None = ''undefined''"
| "typeof (Some JNull) = ''object''"
| "typeof (Some (JBool b)) = ''boolean''"
| "typeof (Some (JNum n)) = ''number''"
| "typeof (Some (JStr s)) = ''string''"
| "typeof (Some (JArr xs)) = ''object''"
| "typeof (Some (JObj kvs)) = ''object''"

fun isArray :: "'n json \<Rightarrow> bool" where
  "isArray (JArr xs) = True"
| "isArray v = False"

text \<open>
  \<^verbatim>\<open>k in v\<close> and \<^verbatim>\<open>v.k\<close>, for the keys the program uses (\<^verbatim>\<open>name\<close> and \<^verbatim>\<open>description\<close>):
  no built-in prototype defines them and they are not array indices, so only the
  own keys of an object count. \<^verbatim>\<open>in\<close> throws on a primitive; a property read throws
  on \<^verbatim>\<open>null\<close> and gives \<^verbatim>\<open>undefined\<close> on the other values without the key.
\<close>

fun js_in :: "string \<Rightarrow> 'n json \<Rightarrow> defect + bool" where
  "js_in k (JObj kvs) = Inr (map_of kvs k \<noteq> None)"
| "js_in k (JArr xs) = Inr False"
| "js_in k v = Inl TypeError"

fun get_member :: "'n json \<Rightarrow> string \<Rightarrow> defect + 'n jsval" where
  "get_member JNull k = Inl TypeError"
| "get_member (JObj kvs) k = Inr (map_of kvs k)"
| "get_member v k = Inr None"

text \<open>
  \<^verbatim>\<open>v.toLowerCase()\<close>: the method exists on strings only; on every other value the
  call throws. The runtime's \<^verbatim>\<open>String.prototype.toLowerCase\<close> is the parameter \<open>lc\<close>.
\<close>

fun call_toLowerCase :: "(string \<Rightarrow> string) \<Rightarrow> 'n jsval \<Rightarrow> defect + string" where
  "call_toLowerCase lc (Some (JStr s)) = Inr (lc s)"
| "call_toLowerCase lc v = Inl TypeError"

text \<open>
  \<^verbatim>\<open>Array.prototype.every\<close> and \<^verbatim>\<open>Array.prototype.find\<close> visit the elements in index
  order and stop at the first element that decides the result; an exception of the
  callback leaves the loop.
\<close>

fun js_every :: "('a \<Rightarrow> defect + bool) \<Rightarrow> 'a list \<Rightarrow> defect + bool" where
  "js_every p [] = Inr True"
| "js_every p (x # xs) =
     (case p x of
        Inl t \<Rightarrow> Inl t
      | Inr b \<Rightarrow> if b then js_every p xs else Inr False)"

fun js_find :: "('a \<Rightarrow> defect + bool) \<Rightarrow> 'a list \<Rightarrow> defect + 'a option" where
  "js_find p [] = Inr None"
| "js_find p (x # xs) =
     (case p x of
        Inl t \<Rightarrow> Inl t
      | Inr b \<Rightarrow> if b then Inr (Some x) else js_find p xs)"

text \<open>
  \<^verbatim>\<open>v.every(...)\<close> and \<^verbatim>\<open>v.find(...)\<close> on a parsed value: only an array has the methods,
  on every other value the call throws.
\<close>

fun call_every :: "'n json \<Rightarrow> ('n json \<Rightarrow> defect + bool) \<Rightarrow> defect + bool" where
  "call_every (JArr items) p = js_every p items"
| "call_every v p = Inl TypeError"

fun call_find :: "'n json \<Rightarrow> ('n json \<Rightarrow> defect + bool) \<Rightarrow> defect + 'n jsval" where
  "call_find (JArr items) p = js_find p items"
| "call_find v p = Inl TypeError"

text \<open>
  The lower-casing of ASCII letters, on which \<^verbatim>\<open>toLowerCase\<close> agrees with the runtime;
  used to evaluate the lookup on concrete names.
\<close>

definition ascii_lower :: "string \<Rightarrow> string" where
  "ascii_lower s =
     map (\<lambda>c. case map_of (zip ''ABCDEFGHIJKLMNOPQRSTUVWXYZ'' ''abcdefghijklmnopqrstuvwxyz'') c of
                Some l \<Rightarrow> l
              | None \<Rightarrow> c) s"

section \<open>Errors, the world and the fragment of Effect the routes use\<close>

text \<open>
  The error classes of the two modules; \<^verbatim>\<open>FileReadError\<close> is declared in both with the
  same shape. \<open>'x\<close> is the type of what the runtime throws (\<^verbatim>\<open>error: unknown\<close>).
\<close>

datatype 'x app_error =
    FileReadError 'x
  | ParseError 'x
  | DataFormatError string
  | DinoNotFoundError string

fun tag :: "'x app_error \<Rightarrow> string" where
  "tag (FileReadError e) = ''FileReadError''"
| "tag (ParseError e) = ''ParseError''"
| "tag (DataFormatError m) = ''DataFormatError''"
| "tag (DinoNotFoundError n) = ''DinoNotFoundError''"

datatype no_such_element = NoSuchElementException

text \<open>One argument of a \<^verbatim>\<open>console.error\<close> call.\<close>

datatype 'x console_arg = Text string | Cause 'x | ErrorValue "'x app_error"

text \<open>The stages of a pipeline, one for each \<^verbatim>\<open>yield*\<close> of a generator.\<close>

datatype stage = ReadStage | ParseStage | ValidateStage | FindStage

text \<open>
  The world a request runs in: what \<^verbatim>\<open>Deno.readTextFile\<close> answers for a path, the lines
  written to the console so far, and the stages the generators have run so far
  (\<open>yielded\<close> records each \<^verbatim>\<open>yield*\<close> that is reached; the program does not read it).
\<close>

record 'x world =
  fs :: "string \<Rightarrow> 'x + string"
  console :: "'x console_arg list list"
  yielded :: "stage list"

text \<open>
  An effect ends in a value, in a typed failure, or in a defect (an exception that
  was thrown, not failed with).
\<close>

datatype ('a, 'e) exit = Success 'a | Failure 'e | Die defect

type_synonym ('a, 'e, 'x) effect = "'x world \<Rightarrow> ('a, 'e) exit \<times> 'x world"

definition succeed :: "'a \<Rightarrow> ('a, 'e, 'x) effect" where
  "succeed a = (\<lambda>w. (Success a, w))"

definition fail :: "'e \<Rightarrow> ('a, 'e, 'x) effect" where
  "fail e = (\<lambda>w. (Failure e, w))"

definition die :: "defect \<Rightarrow> ('a, 'e, 'x) effect" where
  "die t = (\<lambda>w. (Die t, w))"

text \<open>\<^verbatim>\<open>Effect.try\<close> and \<^verbatim>\<open>Effect.tryPromise\<close>: an exception of the thunk becomes a typed failure.\<close>

definition Effect_try :: "('x + 'a) \<Rightarrow> ('x \<Rightarrow> 'e) \<Rightarrow> ('a, 'e, 'x) effect" where
  "Effect_try thunk catch =
     (case thunk of Inl x \<Rightarrow> fail (catch x) | Inr a \<Rightarrow> succeed a)"

definition tryPromise :: "('x world \<Rightarrow> 'x + 'a) \<Rightarrow> ('x \<Rightarrow> 'e) \<Rightarrow> ('a, 'e, 'x) effect" where
  "tryPromise thunk catch = (\<lambda>w. Effect_try (thunk w) catch w)"

text \<open>\<^verbatim>\<open>Effect.fromNullable\<close>: \<^verbatim>\<open>null\<close> and \<^verbatim>\<open>undefined\<close> fail, every other value succeeds.\<close>

fun fromNullable :: "'n jsval \<Rightarrow> ('n json, no_such_element, 'x) effect" where
  "fromNullable None = fail NoSuchElementException"
| "fromNullable (Some JNull) = fail NoSuchElementException"
| "fromNullable (Some v) = succeed v"

definition mapError :: "('a, 'e, 'x) effect \<Rightarrow> ('e \<Rightarrow> 'f) \<Rightarrow> ('a, 'f, 'x) effect" where
  "mapError m f =
     (\<lambda>w. case m w of
        (Success a, w') \<Rightarrow> (Success a, w')
      | (Failure e, w') \<Rightarrow> (Failure (f e), w')
      | (Die t, w') \<Rightarrow> (Die t, w'))"

text \<open>Sequencing, as \<^verbatim>\<open>yield*\<close> in \<^verbatim>\<open>Effect.gen\<close> does it: only a success continues.\<close>

definition flatMap :: "('a, 'e, 'x) effect \<Rightarrow> ('a \<Rightarrow> ('b, 'e, 'x) effect) \<Rightarrow> ('b, 'e, 'x) effect" where
  "flatMap m f =
     (\<lambda>w. case m w of
        (Success a, w') \<Rightarrow> f a w'
      | (Failure e, w') \<Rightarrow> (Failure e, w')
      | (Die t, w') \<Rightarrow> (Die t, w'))"

text \<open>\<^verbatim>\<open>Effect.catchAll\<close> recovers from typed failures; a defect passes through.\<close>

definition catchAll :: "('a, 'e, 'x) effect \<Rightarrow> ('e \<Rightarrow> ('a, 'f, 'x) effect) \<Rightarrow> ('a, 'f, 'x) effect" where
  "catchAll m h =
     (\<lambda>w. case m w of
        (Success a, w') \<Rightarrow> (Success a, w')
      | (Failure e, w') \<Rightarrow> h e w'
      | (Die t, w') \<Rightarrow> (Die t, w'))"

text \<open>
  A \<^verbatim>\<open>yield*\<close> of a generator: the stage is recorded, then its effect runs. An
  exception thrown while the generator body computes the effect is turned into a
  defect by the Effect runtime.
\<close>

definition yield_star :: "stage \<Rightarrow> (defect + ('a, 'e, 'x) effect) \<Rightarrow> ('a, 'e, 'x) effect" where
  "yield_star s body =
     (\<lambda>w. (case body of Inl t \<Rightarrow> die t | Inr m \<Rightarrow> m) (w\<lparr>yielded := yielded w @ [s]\<rparr>))"

definition console_error :: "'x console_arg list \<Rightarrow> (unit, 'e, 'x) effect" where
  "console_error args = (\<lambda>w. (Success (), w\<lparr>console := console w @ [args]\<rparr>))"

text \<open>
  \<^verbatim>\<open>Effect.runPromise\<close>: the promise resolves with the value of a success and rejects on
  a failure or a defect. The handler awaits it and passes the value to \<^verbatim>\<open>ctx.render\<close>; a
  rejection leaves the handler as the rejection of its own promise.
\<close>

datatype 'e rejection = FiberFailure 'e | FiberDefect defect

datatype ('a, 'e) promise = Resolved 'a | Rejected "'e rejection"

definition runPromise :: "('a, 'e, 'x) effect \<Rightarrow> 'x world \<Rightarrow> ('a, 'e) promise \<times> 'x world" where
  "runPromise m w =
     (case m w of
        (Success a, w') \<Rightarrow> (Resolved a, w')
      | (Failure e, w') \<Rightarrow> (Rejected (FiberFailure e), w')
      | (Die t, w') \<Rightarrow> (Rejected (FiberDefect t), w'))"

datatype 'n response = Rendered "'n json"

definition render_result ::
  "('n json, 'e) promise \<times> 'x world \<Rightarrow> ('n response, 'e) promise \<times> 'x world" where
  "render_result r =
     (case r of
        (Resolved v, w') \<Rightarrow> (Resolved (Rendered v), w')
      | (Rejected c, w') \<Rightarrow> (Rejected c, w'))"

section \<open>The list endpoint (routes/index.tsx)\<close>

definition readDinoFile :: "(string, 'x app_error, 'x) effect" where
  "readDinoFile = tryPromise (\<lambda>w. fs w ''data/dinosaurs.json'') FileReadError"

text \<open>\<open>JSON_parse\<close> is the runtime's \<^verbatim>\<open>JSON.parse\<close>: the parsed value, or what it throws.\<close>

definition parseDinoData ::
  "(string \<Rightarrow> 'x + 'n json) \<Rightarrow> string \<Rightarrow> ('n json, 'x app_error, 'x) effect" where
  "parseDinoData JSON_parse data = Effect_try (JSON_parse data) ParseError"

definition isValidDinoData :: "'n json \<Rightarrow> defect + bool" where
  "isValidDinoData item =
     (if typeof (Some item) \<noteq> ''object'' then Inr False
      else if item = JNull then Inr False
      else (case js_in ''name'' item of
        Inl t \<Rightarrow> Inl t
      | Inr has_name \<Rightarrow>
          (if \<not> has_name then Inr False
           else (case get_member item ''name'' of
             Inl t \<Rightarrow> Inl t
           | Inr n \<Rightarrow>
               (if typeof n \<noteq> ''string'' then Inr False
                else (case js_in ''description'' item of
                  Inl t \<Rightarrow> Inl t
                | Inr has_description \<Rightarrow>
                    (if \<not> has_description then Inr False
                     else (case get_member item ''description'' of
                       Inl t \<Rightarrow> Inl t
                     | Inr d \<Rightarrow> Inr (typeof d = ''string'')))))))))"

definition validateDinoArray :: "'n json \<Rightarrow> defect + ('n json, 'x app_error, 'x) effect" where
  "validateDinoArray data =
     (if \<not> isArray data then
        Inr (fail (DataFormatError ''Data is not in expected array format''))
      else case call_every data isValidDinoData of
        Inl t \<Rightarrow> Inl t
      | Inr ok \<Rightarrow>
          if \<not> ok then
            Inr (fail (DataFormatError ''Some items in array are not valid DinoData''))
          else Inr (succeed data))"

definition program_index ::
  "(string \<Rightarrow> 'x + 'n json) \<Rightarrow> ('n json, 'x app_error, 'x) effect" where
  "program_index JSON_parse =
     flatMap (yield_star ReadStage (Inr readDinoFile)) (\<lambda>fileContent.
     flatMap (yield_star ParseStage (Inr (parseDinoData JSON_parse fileContent))) (\<lambda>parsedData.
     flatMap (yield_star ValidateStage (validateDinoArray parsedData)) (\<lambda>dinos.
     succeed dinos)))"

text \<open>The \<^verbatim>\<open>switch\<close> on \<^verbatim>\<open>error._tag\<close> in the handler has three cases and no default.\<close>

fun log_index :: "'x app_error \<Rightarrow> (unit, 'x app_error, 'x) effect" where
  "log_index (FileReadError e) = console_error [Text ''Error reading dinosaur file:'', Cause e]"
| "log_index (ParseError e) = console_error [Text ''Error parsing dinosaur data:'', Cause e]"
| "log_index (DataFormatError m) = console_error [Text ''Data format error:'', Text m]"
| "log_index (DinoNotFoundError n) = succeed ()"

definition GET_index ::
  "(string \<Rightarrow> 'x + 'n json) \<Rightarrow> 'x world \<Rightarrow> ('n response, 'x app_error) promise \<times> 'x world" where
  "GET_index JSON_parse w =
     render_result
       (runPromise
          (catchAll (program_index JSON_parse)
             (\<lambda>error. flatMap (log_index error) (\<lambda>_. succeed (JArr []))))
          w)"

section \<open>The detail endpoint (routes/[dinosaur].tsx)\<close>

definition parseDinos ::
  "(string \<Rightarrow> 'x + 'n json) \<Rightarrow> string \<Rightarrow> ('n json, 'x app_error, 'x) effect" where
  "parseDinos JSON_parse data = Effect_try (JSON_parse data) FileReadError"

text \<open>The callback of \<^verbatim>\<open>find\<close>: \<^verbatim>\<open>d.name.toLowerCase() === name.toLowerCase()\<close>.\<close>

definition name_equals :: "(string \<Rightarrow> string) \<Rightarrow> string \<Rightarrow> 'n json \<Rightarrow> defect + bool" where
  "name_equals lc name d =
     (case get_member d ''name'' of
        Inl t \<Rightarrow> Inl t
      | Inr n \<Rightarrow>
          (case call_toLowerCase lc n of
             Inl t \<Rightarrow> Inl t
           | Inr s \<Rightarrow> Inr (s = lc name)))"

text \<open>
  \<^verbatim>\<open>dinos\<close> is the parsed value, cast to \<^verbatim>\<open>DinoData[]\<close> without a check, so \<^verbatim>\<open>dinos.find\<close>
  is a call on any parsed value.
\<close>

definition findDino ::
  "(string \<Rightarrow> string) \<Rightarrow> string \<Rightarrow> 'n json \<Rightarrow> defect + ('n json, 'x app_error, 'x) effect" where
  "findDino lc name dinos =
     (case call_find dinos (name_equals lc name) of
        Inl t \<Rightarrow> Inl t
      | Inr found \<Rightarrow> Inr (mapError (fromNullable found) (\<lambda>_. DinoNotFoundError name)))"

definition program_detail ::
  "(string \<Rightarrow> 'x + 'n json) \<Rightarrow> (string \<Rightarrow> string) \<Rightarrow> string \<Rightarrow> ('n json, 'x app_error, 'x) effect" where
  "program_detail JSON_parse lc dinosaur =
     flatMap (yield_star ReadStage (Inr readDinoFile)) (\<lambda>fileData.
     flatMap (yield_star ParseStage (Inr (parseDinos JSON_parse fileData))) (\<lambda>dinos.
     flatMap (yield_star FindStage (findDino lc dinosaur dinos)) (\<lambda>dino.
     succeed dino)))"

definition GET_detail ::
  "(string \<Rightarrow> 'x + 'n json) \<Rightarrow> (string \<Rightarrow> string) \<Rightarrow> string \<Rightarrow> 'x world
     \<Rightarrow> ('n response, 'x app_error) promise \<times> 'x world" where
  "GET_detail JSON_parse lc dinosaur w =
     render_result
       (runPromise
          (catchAll (program_detail JSON_parse lc dinosaur)
             (\<lambda>error. flatMap (console_error [Text ''Error fetching dinosaur:'', ErrorValue error])
                (\<lambda>_. succeed JNull)))
          w)"

section \<open>The record shape of the data model\<close>

text \<open>
  Modelled from the spec: the type \<^verbatim>\<open>DinoData\<close> of \<^verbatim>\<open>types.ts\<close>, which is not among the
  sources. A record is an object with a \<^verbatim>\<open>name\<close> field of text type and a
  \<^verbatim>\<open>description\<close> field of text type.
\<close>

definition text_field :: "string \<Rightarrow> 'n json \<Rightarrow> string option" where
  "text_field k v =
     (case v of
        JObj kvs \<Rightarrow> (case map_of kvs k of Some (JStr s) \<Rightarrow> Some s | _ \<Rightarrow> None)
      | _ \<Rightarrow> None)"

definition is_DinoData :: "'n json \<Rightarrow> bool" where
  "is_DinoData v = (text_field ''name'' v \<noteq> None \<and> text_field ''description'' v \<noteq> None)"

text \<open>A record's name equals the requested name up to case.\<close>

definition name_matches :: "(string \<Rightarrow> string) \<Rightarrow> string \<Rightarrow> 'n json \<Rightarrow> bool" where
  "name_matches lc name d =
     (case text_field ''name'' d of Some s \<Rightarrow> lc s = lc name | None \<Rightarrow> False)"

section \<open>Example inputs\<close>

text \<open>Two records, a third that repeats the first name in another case, and a broken one.\<close>

definition rex :: "nat json" where
  "rex = JObj [(''name'', JStr ''Rex''), (''description'', JStr ''D1'')]"

definition amy :: "nat json" where
  "amy = JObj [(''name'', JStr ''Amy''), (''description'', JStr ''D2'')]"

definition rex_upper :: "nat json" where
  "rex_upper = JObj [(''name'', JStr ''REX''), (''description'', JStr ''D3'')]"

definition nameless :: "nat json" where
  "nameless = JObj [(''description'', JStr ''D4'')]"

text \<open>
  An instance of the parameter \<open>JSON_parse\<close>, given on the file texts of the examples
  only: the text \<^verbatim>\<open>two\<close> stands for the file of the two records, \<^verbatim>\<open>broken\<close> for the same
  file with the nameless record added; every other text counts as malformed.
\<close>

definition sample_parse :: "string \<Rightarrow> string + nat json" where
  "sample_parse text =
     (if text = ''[]'' then Inr (JArr [])
      else if text = ''{}'' then Inr (JObj [])
      else if text = ''two'' then Inr (JArr [rex, amy])
      else if text = ''broken'' then Inr (JArr [rex, nameless, amy])
      else Inl ''SyntaxError'')"

text \<open>A disk that holds the data file with the given text, and a disk without the file.\<close>

definition disk_with :: "string \<Rightarrow> string \<Rightarrow> string + string" where
  "disk_with text path = (if path = ''data/dinosaurs.json'' then Inr text else Inl ''NotFound'')"

definition empty_disk :: "string \<Rightarrow> string + string" where
  "empty_disk path = Inl ''NotFound''"

text \<open>A world in which nothing has been logged or run yet.\<close>

definition fresh_world :: "(string \<Rightarrow> 'x + string) \<Rightarrow> 'x world" where
  "fresh_world disk = \<lparr>fs = disk, console = [], yielded = []\<rparr>"

section \<open>The stages and the two programs, case by case\<close>

text \<open>The element check of the validator computes the record shape and never throws.\<close>

lemma isValidDinoData_eq: "isValidDinoData item = Inr (is_DinoData item)"
proof (cases item)
  case (JObj kvs)
  show ?thesis
    unfolding JObj isValidDinoData_def is_DinoData_def text_field_def
    by (simp split: option.splits json.splits)
qed (simp_all add: isValidDinoData_def is_DinoData_def text_field_def)

lemma js_every_isValidDinoData: "js_every isValidDinoData items = Inr (list_all is_DinoData items)"
  by (induction items) (simp_all add: isValidDinoData_eq)

lemma validateDinoArray_array:
  "validateDinoArray (JArr items) =
     Inr (if list_all is_DinoData items then succeed (JArr items)
          else fail (DataFormatError ''Some items in array are not valid DinoData''))"
  by (simp add: validateDinoArray_def js_every_isValidDinoData)

lemma validateDinoArray_not_array:
  "\<not> isArray data \<Longrightarrow>
     validateDinoArray data = Inr (fail (DataFormatError ''Data is not in expected array format''))"
  by (simp add: validateDinoArray_def)

lemma isArray_iff: "isArray v \<longleftrightarrow> (\<exists>items. v = JArr items)"
  by (cases v) simp_all

text \<open>
  The list program, by the outcome of the read, of the parse and of the validation:
  its exit and the stages it has gone through.
\<close>

lemma program_index_eq:
  "program_index JSON_parse w =
     (case fs w ''data/dinosaurs.json'' of
        Inl e \<Rightarrow> (Failure (FileReadError e), w\<lparr>yielded := yielded w @ [ReadStage]\<rparr>)
      | Inr content \<Rightarrow>
          (case JSON_parse content of
             Inl e \<Rightarrow> (Failure (ParseError e), w\<lparr>yielded := yielded w @ [ReadStage, ParseStage]\<rparr>)
           | Inr data \<Rightarrow>
               (if \<not> isArray data then Failure (DataFormatError ''Data is not in expected array format'')
                else if list_all is_DinoData (case data of JArr items \<Rightarrow> items | _ \<Rightarrow> []) then Success data
                else Failure (DataFormatError ''Some items in array are not valid DinoData''),
                w\<lparr>yielded := yielded w @ [ReadStage, ParseStage, ValidateStage]\<rparr>)))"
  by (cases "fs w ''data/dinosaurs.json''")
     (auto simp: program_index_def flatMap_def yield_star_def readDinoFile_def tryPromise_def
        Effect_try_def parseDinoData_def fail_def succeed_def die_def isArray_iff
        validateDinoArray_array validateDinoArray_not_array split: sum.splits)

text \<open>The lookup on records is the library's \<open>find\<close> with the name comparison.\<close>

lemma name_equals_record:
  "text_field ''name'' d \<noteq> None \<Longrightarrow> name_equals lc name d = Inr (name_matches lc name d)"
  by (auto simp: name_equals_def name_matches_def text_field_def split: json.splits option.splits)

lemma js_find_records:
  "list_all is_DinoData dinos \<Longrightarrow>
     js_find (name_equals lc name) dinos = Inr (List.find (name_matches lc name) dinos)"
  by (induction dinos) (simp_all add: name_equals_record is_DinoData_def)

lemma mapError_fail: "mapError (fail e) f = fail (f e)"
  by (rule ext) (simp add: mapError_def fail_def)

lemma mapError_succeed: "mapError (succeed a) f = succeed a"
  by (rule ext) (simp add: mapError_def succeed_def)

lemma fromNullable_Some:
  "fromNullable (Some v) = (if v = JNull then fail NoSuchElementException else succeed v)"
  by (cases v) simp_all

lemma findDino_cases:
  "findDino lc name dinos =
     (case call_find dinos (name_equals lc name) of
        Inl t \<Rightarrow> Inl t
      | Inr None \<Rightarrow> Inr (fail (DinoNotFoundError name))
      | Inr (Some v) \<Rightarrow>
          if v = JNull then Inr (fail (DinoNotFoundError name)) else Inr (succeed v))"
  by (simp add: findDino_def fromNullable_Some mapError_fail mapError_succeed
        split: sum.splits option.splits)

lemma program_detail_eq:
  "program_detail JSON_parse lc name w =
     (case fs w ''data/dinosaurs.json'' of
        Inl e \<Rightarrow> (Failure (FileReadError e), w\<lparr>yielded := yielded w @ [ReadStage]\<rparr>)
      | Inr content \<Rightarrow>
          (case JSON_parse content of
             Inl e \<Rightarrow> (Failure (FileReadError e), w\<lparr>yielded := yielded w @ [ReadStage, ParseStage]\<rparr>)
           | Inr dinos \<Rightarrow>
               (case call_find dinos (name_equals lc name) of
                  Inl t \<Rightarrow> Die t
                | Inr None \<Rightarrow> Failure (DinoNotFoundError name)
                | Inr (Some v) \<Rightarrow> if v = JNull then Failure (DinoNotFoundError name) else Success v,
                w\<lparr>yielded := yielded w @ [ReadStage, ParseStage, FindStage]\<rparr>)))"
  by (cases "fs w ''data/dinosaurs.json''")
     (auto simp: program_detail_def flatMap_def yield_star_def readDinoFile_def tryPromise_def
        Effect_try_def parseDinos_def fail_def succeed_def die_def findDino_cases
        split: sum.splits option.splits)

text \<open>The handlers: what is rendered, and that the file is left as it was.\<close>

lemma log_index_result:
  "fst (log_index e w) = Success () \<and> fs (snd (log_index e w)) = fs w
     \<and> yielded (snd (log_index e w)) = yielded w"
  by (cases e) (simp_all add: console_error_def succeed_def)

lemma recover_index:
  "flatMap (log_index e) (\<lambda>_. succeed v) w = (Success v, snd (log_index e w))"
  using log_index_result [of e w]
  by (cases "log_index e w") (simp add: flatMap_def succeed_def)

lemma GET_index_run:
  "GET_index JSON_parse w =
     (case program_index JSON_parse w of
        (Success v, w') \<Rightarrow> (Resolved (Rendered v), w')
      | (Failure e, w') \<Rightarrow> (Resolved (Rendered (JArr [])), snd (log_index e w'))
      | (Die t, w') \<Rightarrow> (Rejected (FiberDefect t), w'))"
  by (simp add: GET_index_def render_result_def runPromise_def catchAll_def recover_index
        split: prod.splits exit.splits)

lemma program_index_no_defect: "fst (program_index JSON_parse w) \<noteq> Die t"
  by (simp add: program_index_eq split: sum.splits)

lemma GET_index_eq:
  "fst (GET_index JSON_parse w) =
     Resolved (Rendered
       (case fst (program_index JSON_parse w) of
          Success v \<Rightarrow> v | Failure e \<Rightarrow> JArr [] | Die t \<Rightarrow> JArr []))"
  using program_index_no_defect [of JSON_parse w]
  by (cases "program_index JSON_parse w") (auto simp: GET_index_run split: exit.splits)

lemma program_index_fs: "fs (snd (program_index JSON_parse w)) = fs w"
  by (simp add: program_index_eq split: sum.splits)

lemma GET_index_fs: "fs (snd (GET_index JSON_parse w)) = fs w"
  using program_index_fs [of JSON_parse w]
  by (auto simp: GET_index_run log_index_result split: prod.splits exit.splits)

lemma GET_detail_eq:
  "fst (GET_detail JSON_parse lc name w) =
     (case fst (program_detail JSON_parse lc name w) of
        Success v \<Rightarrow> Resolved (Rendered v)
      | Failure e \<Rightarrow> Resolved (Rendered JNull)
      | Die t \<Rightarrow> Rejected (FiberDefect t))"
proof -
  obtain r w' where rw: "program_detail JSON_parse lc name w = (r, w')"
    by (cases "program_detail JSON_parse lc name w")
  then show ?thesis
    by (cases r)
       (simp_all add: GET_detail_def render_result_def runPromise_def catchAll_def flatMap_def
          succeed_def console_error_def)
qed

lemma GET_detail_fs: "fs (snd (GET_detail JSON_parse lc name w)) = fs w"
proof -
  have "fs (snd (program_detail JSON_parse lc name w)) = fs w"
    by (simp add: program_detail_eq split: sum.splits)
  moreover obtain r w' where rw: "program_detail JSON_parse lc name w = (r, w')"
    by (cases "program_detail JSON_parse lc name w")
  ultimately show ?thesis
    by (cases r)
       (simp_all add: GET_detail_def render_result_def runPromise_def catchAll_def flatMap_def
          succeed_def console_error_def)
qed

lemma program_index_fst_cong:
  "fs w2 ''data/dinosaurs.json'' = fs w1 ''data/dinosaurs.json'' \<Longrightarrow>
     fst (program_index JSON_parse w2) = fst (program_index JSON_parse w1)"
  by (simp add: program_index_eq split: sum.splits)

lemma program_detail_fst_cong:
  "fs w2 ''data/dinosaurs.json'' = fs w1 ''data/dinosaurs.json'' \<Longrightarrow>
     fst (program_detail JSON_parse lc name w2) = fst (program_detail JSON_parse lc name w1)"
  by (simp add: program_detail_eq split: sum.splits)


text \<open>The list handler resolves in every world.\<close>

lemma GET_index_always_resolves:
  "\<exists>v. fst (GET_index JSON_parse w) = Resolved (Rendered v)"
  by (simp add: GET_index_eq)

lemma GET_detail_run:
  "GET_detail JSON_parse lc name w =
     (case program_detail JSON_parse lc name w of
        (Success v, w') \<Rightarrow> (Resolved (Rendered v), w')
      | (Failure e, w') \<Rightarrow>
          (Resolved (Rendered JNull),
           w'\<lparr>console := console w' @ [[Text ''Error fetching dinosaur:'', ErrorValue e]]\<rparr>)
      | (Die t, w') \<Rightarrow> (Rejected (FiberDefect t), w'))"
  by (simp add: GET_detail_def render_result_def runPromise_def catchAll_def flatMap_def
        succeed_def console_error_def split: prod.splits exit.splits)

lemma GET_index_fst_cong:
  "fs w2 ''data/dinosaurs.json'' = fs w1 ''data/dinosaurs.json'' \<Longrightarrow>
     fst (GET_index JSON_parse w2) = fst (GET_index JSON_parse w1)"
  using program_index_fst_cong [of w2 w1 JSON_parse] by (simp add: GET_index_eq)

lemma GET_detail_fst_cong:
  "fs w2 ''data/dinosaurs.json'' = fs w1 ''data/dinosaurs.json'' \<Longrightarrow>
     fst (GET_detail JSON_parse lc name w2) = fst (GET_detail JSON_parse lc name w1)"
  using program_detail_fst_cong [of w2 w1 JSON_parse lc name] by (simp add: GET_detail_eq)

text \<open>The detail handler rejects only when the lookup itself throws.\<close>

lemma GET_detail_rejects_only_on_lookup_exception:
  assumes "fst (GET_detail JSON_parse lc name w) = Rejected r"
  shows "\<exists>content dinos.
           fs w ''data/dinosaurs.json'' = Inr content \<and> JSON_parse content = Inr dinos \<and>
           call_find dinos (name_equals lc name) = Inl TypeError \<and> r = FiberDefect TypeError"
proof -
  have t: "t = TypeError" for t :: defect
    by (cases t) simp
  from assms show ?thesis
    by (auto simp: GET_detail_eq program_detail_eq t [of "_ :: defect"]
          split: sum.splits option.splits if_splits)
qed

text \<open>A failure of an effect ends a sequence whatever the continuation is.\<close>

lemma flatMap_failure:
  "m w = (Failure e, w') \<Longrightarrow> flatMap m k w = (Failure e, w')"
  by (simp add: flatMap_def)

lemma flatMap_defect:
  "m w = (Die t, w') \<Longrightarrow> flatMap m k w = (Die t, w')"
  by (simp add: flatMap_def)

section \<open>Validation of the list endpoint\<close>

text \<open>
  Claim C3. For every parsed value, \<open>validateDinoArray\<close> returns an effect (it does not
  throw) that succeeds with the value exactly when the value is an array whose
  elements are all objects with a string \<^verbatim>\<open>name\<close> and a string \<^verbatim>\<open>description\<close>; it fails
  with the \<open>DataFormatError\<close> "Data is not in expected array format" exactly when
  the value is not an array, and with the \<open>DataFormatError\<close> "Some items in array are
  not valid DinoData" exactly when it is an array with an element of another shape.
\<close>
theorem validateDinoArray_all_or_error:
  "\<exists>m. validateDinoArray data = Inr m \<and>
     (\<forall>w. (m w = (Success data, w)) =
            (\<exists>items. data = JArr items \<and> list_all is_DinoData items)) \<and>
     (\<forall>w. (m w = (Failure (DataFormatError ''Data is not in expected array format''), w)) =
            (\<not> isArray data)) \<and>
     (\<forall>w. (m w = (Failure (DataFormatError ''Some items in array are not valid DinoData''), w)) =
            (\<exists>items. data = JArr items \<and> \<not> list_all is_DinoData items))"
proof (cases data)
  case (JArr items)
  show ?thesis
    unfolding JArr validateDinoArray_array
    by (simp add: succeed_def fail_def)
qed (simp_all add: validateDinoArray_not_array fail_def)

theorem validateDinoArray_all_or_error_witness:
  "(\<exists>m. validateDinoArray (JArr [rex, nameless, amy]) = Inr m \<and>
      (\<forall>w :: string world.
         m w = (Failure (DataFormatError ''Some items in array are not valid DinoData''), w)))
   \<and> \<not> list_all is_DinoData [rex, nameless, amy]"
proof -
  have bad: "\<not> list_all is_DinoData [rex, nameless, amy]"
    by (simp add: is_DinoData_def text_field_def nameless_def)
  obtain m :: "(nat json, string app_error, string) effect"
    where m: "validateDinoArray (JArr [rex, nameless, amy]) = Inr m"
      and c: "\<forall>w. (m w = (Failure (DataFormatError ''Some items in array are not valid DinoData''), w)) =
                (\<exists>items. JArr [rex, nameless, amy] = JArr items \<and> \<not> list_all is_DinoData items)"
    using validateDinoArray_all_or_error [of "JArr [rex, nameless, amy]"] by blast
  from c bad have "\<forall>w. m w = (Failure (DataFormatError ''Some items in array are not valid DinoData''), w)"
    by blast
  with m bad show ?thesis
    by blast
qed

section \<open>Lookup of the detail endpoint\<close>

text \<open>
  Claim C2. For every sequence of records and every requested name, \<open>findDino\<close>
  returns an effect that either succeeds with the element at the least index whose
  name equals the requested name after lower-casing both (no earlier element
  matches), or, when no element matches, fails with \<open>DinoNotFoundError\<close> carrying the
  requested name.
\<close>
theorem findDino_first_match:
  assumes "list_all is_DinoData dinos"
  shows "\<exists>m. findDino lc name (JArr dinos) = Inr m \<and>
           ((\<exists>i<length dinos.
               name_matches lc name (dinos ! i) \<and>
               (\<forall>j<i. \<not> name_matches lc name (dinos ! j)) \<and>
               (\<forall>w. m w = (Success (dinos ! i), w)))
            \<or> ((\<forall>d\<in>set dinos. \<not> name_matches lc name d) \<and>
                (\<forall>w. m w = (Failure (DinoNotFoundError name), w))))"
proof (cases "List.find (name_matches lc name) dinos")
  case None
  then have "\<forall>d\<in>set dinos. \<not> name_matches lc name d"
    by (simp add: find_None_iff)
  moreover have "findDino lc name (JArr dinos) = Inr (fail (DinoNotFoundError name))"
    using assms None by (simp add: findDino_cases js_find_records)
  moreover have "\<forall>w. fail (DinoNotFoundError name) w = (Failure (DinoNotFoundError name), w)"
    by (simp add: fail_def)
  ultimately show ?thesis
    by blast
next
  case (Some d)
  then obtain i where i: "i < length dinos" "name_matches lc name (dinos ! i)" "d = dinos ! i"
    "\<forall>j<i. \<not> name_matches lc name (dinos ! j)"
    by (auto simp: find_Some_iff)
  from i(2,3) have "d \<noteq> JNull"
    by (auto simp: name_matches_def text_field_def)
  then have "findDino lc name (JArr dinos) = Inr (succeed d)"
    using assms Some by (simp add: findDino_cases js_find_records)
  moreover have "\<forall>w. succeed d w = (Success (dinos ! i), w)"
    using i(3) by (simp add: succeed_def)
  ultimately show ?thesis
    using i(1,2,4) by blast
qed

theorem findDino_first_match_witness:
  "list_all is_DinoData [amy, rex, rex_upper] \<and>
   (\<exists>m :: (nat json, string app_error, string) effect.
      findDino ascii_lower ''rEx'' (JArr [amy, rex, rex_upper]) = Inr m \<and>
      ((\<exists>i<length [amy, rex, rex_upper].
          name_matches ascii_lower ''rEx'' ([amy, rex, rex_upper] ! i) \<and>
          (\<forall>j<i. \<not> name_matches ascii_lower ''rEx'' ([amy, rex, rex_upper] ! j)) \<and>
          (\<forall>w. m w = (Success ([amy, rex, rex_upper] ! i), w)))
       \<or> ((\<forall>d\<in>set [amy, rex, rex_upper]. \<not> name_matches ascii_lower ''rEx'' d) \<and>
           (\<forall>w. m w = (Failure (DinoNotFoundError ''rEx''), w))))) \<and>
   findDino ascii_lower ''rEx'' (JArr [amy, rex, rex_upper])
     = Inr (succeed rex :: (nat json, string app_error, string) effect) \<and>
   findDino ascii_lower ''zzz'' (JArr [amy, rex, rex_upper])
     = Inr (fail (DinoNotFoundError ''zzz'') :: (nat json, string app_error, string) effect)"
proof -
  have h: "list_all is_DinoData [amy, rex, rex_upper]"
    by (simp add: is_DinoData_def text_field_def amy_def rex_def rex_upper_def)
  note c = findDino_first_match [OF h, of ascii_lower "''rEx''"]
  have e1: "findDino ascii_lower ''rEx'' (JArr [amy, rex, rex_upper])
     = Inr (succeed rex :: (nat json, string app_error, string) effect)"
    by (simp add: findDino_cases name_equals_def amy_def rex_def rex_upper_def ascii_lower_def)
  have e2: "findDino ascii_lower ''zzz'' (JArr [amy, rex, rex_upper])
     = Inr (fail (DinoNotFoundError ''zzz'') :: (nat json, string app_error, string) effect)"
    by (simp add: findDino_cases name_equals_def amy_def rex_def rex_upper_def ascii_lower_def)
  from h c e1 e2 show ?thesis
    by (intro conjI)
qed

section \<open>The list endpoint on well-formed and on ill-formed files\<close>

text \<open>
  Claim C4. When the data file parses to an array whose elements are all records,
  the list endpoint renders a sequence of the same length that holds the file's
  records at the same positions.
\<close>
theorem GET_index_keeps_records_in_order:
  assumes "fs w ''data/dinosaurs.json'' = Inr content"
    and "JSON_parse content = Inr (JArr records)"
    and "list_all is_DinoData records"
  shows "\<exists>out. fst (GET_index JSON_parse w) = Resolved (Rendered (JArr out)) \<and>
           length out = length records \<and> (\<forall>i<length records. out ! i = records ! i)"
  using assms by (simp add: GET_index_eq program_index_eq)

theorem GET_index_keeps_records_in_order_witness:
  "fs (fresh_world (disk_with ''two'')) ''data/dinosaurs.json'' = Inr ''two'' \<and>
   sample_parse ''two'' = Inr (JArr [rex, amy]) \<and>
   list_all is_DinoData [rex, amy] \<and>
   (\<exists>out. fst (GET_index sample_parse (fresh_world (disk_with ''two''))) = Resolved (Rendered (JArr out)) \<and>
           length out = length [rex, amy] \<and> (\<forall>i<length [rex, amy]. out ! i = [rex, amy] ! i))"
proof -
  have a: "fs (fresh_world (disk_with ''two'')) ''data/dinosaurs.json'' = Inr ''two''"
    by (simp add: fresh_world_def disk_with_def)
  have b: "sample_parse ''two'' = Inr (JArr [rex, amy])"
    by (simp add: sample_parse_def)
  have c: "list_all is_DinoData [rex, amy]"
    by (simp add: is_DinoData_def text_field_def amy_def rex_def)
  from a b c GET_index_keeps_records_in_order [where JSON_parse = sample_parse, OF a b c]
  show ?thesis
    by (intro conjI)
qed

text \<open>
  Claim C5. When the data file parses to a value that is not an array, or to an array
  with at least one element that is not a record, the list endpoint renders the empty
  list (not the valid elements that remain after dropping the others).
\<close>
theorem GET_index_all_or_nothing:
  assumes "fs w ''data/dinosaurs.json'' = Inr content"
    and "JSON_parse content = Inr data"
    and "\<not> isArray data \<or> (\<exists>items item. data = JArr items \<and> item \<in> set items \<and> \<not> is_DinoData item)"
  shows "fst (GET_index JSON_parse w) = Resolved (Rendered (JArr []))"
proof -
  from assms(3) have "\<not> isArray data \<or> \<not> list_all is_DinoData (case data of JArr items \<Rightarrow> items | _ \<Rightarrow> [])"
    by (auto simp: list_all_iff)
  with assms(1,2) show ?thesis
    by (auto simp: GET_index_eq program_index_eq)
qed

theorem GET_index_all_or_nothing_witness:
  "fs (fresh_world (disk_with ''broken'')) ''data/dinosaurs.json'' = Inr ''broken'' \<and>
   sample_parse ''broken'' = Inr (JArr [rex, nameless, amy]) \<and>
   nameless \<in> set [rex, nameless, amy] \<and> \<not> is_DinoData nameless \<and>
   filter is_DinoData [rex, nameless, amy] = [rex, amy] \<and>
   fst (GET_index sample_parse (fresh_world (disk_with ''broken''))) = Resolved (Rendered (JArr []))"
proof -
  have a: "fs (fresh_world (disk_with ''broken'')) ''data/dinosaurs.json'' = Inr ''broken''"
    by (simp add: fresh_world_def disk_with_def)
  have b: "sample_parse ''broken'' = Inr (JArr [rex, nameless, amy])"
    by (simp add: sample_parse_def)
  have c: "nameless \<in> set [rex, nameless, amy]"
    by simp
  have d: "\<not> is_DinoData nameless"
    by (simp add: is_DinoData_def text_field_def nameless_def)
  have f: "filter is_DinoData [rex, nameless, amy] = [rex, amy]"
    by (simp add: is_DinoData_def text_field_def nameless_def rex_def amy_def)
  have "\<not> isArray (JArr [rex, nameless, amy]) \<or>
      (\<exists>items item. JArr [rex, nameless, amy] = JArr items \<and> item \<in> set items \<and> \<not> is_DinoData item)"
    using c d by blast
  from GET_index_all_or_nothing [where JSON_parse = sample_parse, OF a b this] a b c d f
  show ?thesis
    by (intro conjI)
qed

section \<open>A missing data file\<close>

text \<open>
  Claim C6. When reading the data file fails, both handlers resolve (they do not
  reject): the list endpoint renders the empty list and the detail endpoint renders
  \<^verbatim>\<open>null\<close>.
\<close>
theorem missing_file_gives_safe_default:
  assumes "fs w ''data/dinosaurs.json'' = Inl e"
  shows "fst (GET_index JSON_parse w) = Resolved (Rendered (JArr [])) \<and>
         fst (GET_detail JSON_parse lc name w) = Resolved (Rendered JNull)"
  using assms by (simp add: GET_index_eq program_index_eq GET_detail_eq program_detail_eq)

theorem missing_file_gives_safe_default_witness:
  "fs (fresh_world empty_disk) ''data/dinosaurs.json'' = Inl ''NotFound'' \<and>
   fst (GET_index sample_parse (fresh_world empty_disk)) = Resolved (Rendered (JArr [])) \<and>
   fst (GET_detail sample_parse ascii_lower ''rex'' (fresh_world empty_disk)) = Resolved (Rendered JNull)"
proof -
  have a: "fs (fresh_world empty_disk) ''data/dinosaurs.json'' = Inl ''NotFound''"
    by (simp add: fresh_world_def empty_disk_def)
  from a missing_file_gives_safe_default [OF a, of sample_parse ascii_lower "''rex''"] show ?thesis
    by (intro conjI) simp_all
qed

section \<open>Short-circuiting of the two pipelines\<close>

text \<open>
  Claim C7. In both pipelines the first failing stage ends the chain. When the read
  fails, the program ends in that failure and the read is the only stage that has
  run; when the read succeeds and the parse fails, the program ends in that failure
  and only the read and the parse have run (no validation, no lookup). Nothing else
  of the world changes, and the exit holds no value of a later stage.
\<close>
theorem first_failure_ends_the_chain:
  assumes "fs w1 ''data/dinosaurs.json'' = Inl e1"
    and "fs w2 ''data/dinosaurs.json'' = Inr content"
    and "JSON_parse content = Inl e2"
  shows "program_index JSON_parse w1 =
           (Failure (FileReadError e1), w1\<lparr>yielded := yielded w1 @ [ReadStage]\<rparr>) \<and>
         program_detail JSON_parse lc name w1 =
           (Failure (FileReadError e1), w1\<lparr>yielded := yielded w1 @ [ReadStage]\<rparr>) \<and>
         program_index JSON_parse w2 =
           (Failure (ParseError e2), w2\<lparr>yielded := yielded w2 @ [ReadStage, ParseStage]\<rparr>) \<and>
         program_detail JSON_parse lc name w2 =
           (Failure (FileReadError e2), w2\<lparr>yielded := yielded w2 @ [ReadStage, ParseStage]\<rparr>)"
  using assms by (simp add: program_index_eq program_detail_eq)

theorem first_failure_ends_the_chain_witness:
  "fs (fresh_world empty_disk) ''data/dinosaurs.json'' = Inl ''NotFound'' \<and>
   fs (fresh_world (disk_with ''[{'')) ''data/dinosaurs.json'' = Inr ''[{'' \<and>
   sample_parse ''[{'' = Inl ''SyntaxError'' \<and>
   yielded (snd (program_index sample_parse (fresh_world empty_disk))) = [ReadStage] \<and>
   yielded (snd (program_detail sample_parse ascii_lower ''rex'' (fresh_world empty_disk))) = [ReadStage] \<and>
   yielded (snd (program_index sample_parse (fresh_world (disk_with ''[{'')))) = [ReadStage, ParseStage] \<and>
   yielded (snd (program_detail sample_parse ascii_lower ''rex'' (fresh_world (disk_with ''[{''))))
     = [ReadStage, ParseStage] \<and>
   fst (program_index sample_parse (fresh_world (disk_with ''[{''))) = Failure (ParseError ''SyntaxError'')"
proof -
  have a: "fs (fresh_world empty_disk) ''data/dinosaurs.json'' = Inl ''NotFound''"
    by (simp add: fresh_world_def empty_disk_def)
  have b: "fs (fresh_world (disk_with ''[{'')) ''data/dinosaurs.json'' = Inr ''[{''"
    by (simp add: fresh_world_def disk_with_def)
  have c: "sample_parse ''[{'' = Inl ''SyntaxError''"
    by (simp add: sample_parse_def)
  have y: "yielded (fresh_world d) = []" for d :: "string \<Rightarrow> string + string"
    by (simp add: fresh_world_def)
  from first_failure_ends_the_chain
         [where JSON_parse = sample_parse and lc = ascii_lower and name = "''rex''", OF a b c]
  show ?thesis
    using a b c by (simp add: y)
qed

section \<open>Repeated requests\<close>

text \<open>
  Claim C8. The output of each handler is determined by the content of the data file
  (and, for the detail endpoint, the requested name): two worlds in which reading the
  file gives the same answer give the same output, and running the same request a
  second time in the world the first run has left behind gives the output of the
  first run.
\<close>
theorem repeated_request_same_output:
  assumes "fs w2 ''data/dinosaurs.json'' = fs w1 ''data/dinosaurs.json''"
  shows "fst (GET_index JSON_parse w2) = fst (GET_index JSON_parse w1) \<and>
         fst (GET_detail JSON_parse lc name w2) = fst (GET_detail JSON_parse lc name w1) \<and>
         fst (GET_index JSON_parse (snd (GET_index JSON_parse w1))) = fst (GET_index JSON_parse w1) \<and>
         fst (GET_detail JSON_parse lc name (snd (GET_detail JSON_parse lc name w1)))
           = fst (GET_detail JSON_parse lc name w1)"
proof (intro conjI)
  show "fst (GET_index JSON_parse w2) = fst (GET_index JSON_parse w1)"
    using assms by (rule GET_index_fst_cong)
  show "fst (GET_detail JSON_parse lc name w2) = fst (GET_detail JSON_parse lc name w1)"
    using assms by (rule GET_detail_fst_cong)
  show "fst (GET_index JSON_parse (snd (GET_index JSON_parse w1))) = fst (GET_index JSON_parse w1)"
    by (rule GET_index_fst_cong) (simp add: GET_index_fs)
  show "fst (GET_detail JSON_parse lc name (snd (GET_detail JSON_parse lc name w1)))
          = fst (GET_detail JSON_parse lc name w1)"
    by (rule GET_detail_fst_cong) (simp add: GET_detail_fs)
qed

theorem repeated_request_same_output_witness:
  "fs (snd (GET_detail sample_parse ascii_lower ''amy'' (fresh_world (disk_with ''two'')))) ''data/dinosaurs.json''
     = fs (fresh_world (disk_with ''two'')) ''data/dinosaurs.json'' \<and>
   snd (GET_detail sample_parse ascii_lower ''amy'' (fresh_world (disk_with ''two'')))
     \<noteq> fresh_world (disk_with ''two'') \<and>
   fst (GET_index sample_parse (snd (GET_detail sample_parse ascii_lower ''amy'' (fresh_world (disk_with ''two'')))))
     = fst (GET_index sample_parse (fresh_world (disk_with ''two''))) \<and>
   fst (GET_detail sample_parse ascii_lower ''amy''
          (snd (GET_detail sample_parse ascii_lower ''amy'' (fresh_world (disk_with ''two'')))))
     = Resolved (Rendered amy) \<and>
   fst (GET_detail sample_parse ascii_lower ''amy'' (fresh_world (disk_with ''two'')))
     = Resolved (Rendered amy)"
proof -
  let ?w1 = "fresh_world (disk_with ''two'')"
  let ?w2 = "snd (GET_detail sample_parse ascii_lower ''amy'' ?w1)"
  have a: "fs ?w2 ''data/dinosaurs.json'' = fs ?w1 ''data/dinosaurs.json''"
    by (simp add: GET_detail_fs)
  have r: "fst (GET_detail sample_parse ascii_lower ''amy'' ?w1) = Resolved (Rendered amy)"
    by (simp add: GET_detail_eq program_detail_eq fresh_world_def disk_with_def sample_parse_def
          name_equals_def rex_def amy_def ascii_lower_def)
  have "yielded ?w2 = [ReadStage, ParseStage, FindStage]"
    by (simp add: GET_detail_run program_detail_eq fresh_world_def disk_with_def sample_parse_def
          name_equals_def rex_def amy_def ascii_lower_def)
  moreover have "yielded ?w1 = []"
    by (simp add: fresh_world_def)
  ultimately have n: "?w2 \<noteq> ?w1"
    by auto
  from repeated_request_same_output
         [where JSON_parse = sample_parse and lc = ascii_lower and name = "''amy''", OF a]
  show ?thesis
    using a r n by simp
qed

section \<open>Error kinds of the detail endpoint\<close>

text \<open>
  Claim C9. On the detail endpoint a JSON parse failure is wrapped in a
  \<open>FileReadError\<close>, not in a \<open>ParseError\<close>: the error of a malformed file and the
  error of a failed read carry the same tag \<^verbatim>\<open>FileReadError\<close>.
\<close>
theorem detail_parse_failure_is_FileReadError:
  assumes "fs w1 ''data/dinosaurs.json'' = Inl e1"
    and "fs w2 ''data/dinosaurs.json'' = Inr content"
    and "JSON_parse content = Inl e2"
  shows "parseDinos JSON_parse content w2 = (Failure (FileReadError e2), w2) \<and>
         (\<exists>err1 err2.
            fst (program_detail JSON_parse lc name w1) = Failure err1 \<and>
            fst (program_detail JSON_parse lc name w2) = Failure err2 \<and>
            err2 = FileReadError e2 \<and> tag err2 = ''FileReadError'' \<and> tag err1 = tag err2 \<and>
            tag err2 \<noteq> tag (ParseError e2))"
  using assms
  by (simp add: program_detail_eq parseDinos_def Effect_try_def fail_def)

theorem detail_parse_failure_is_FileReadError_witness:
  "fs (fresh_world empty_disk) ''data/dinosaurs.json'' = Inl ''NotFound'' \<and>
   fs (fresh_world (disk_with ''[{'')) ''data/dinosaurs.json'' = Inr ''[{'' \<and>
   sample_parse ''[{'' = Inl ''SyntaxError'' \<and>
   fst (program_detail sample_parse ascii_lower ''rex'' (fresh_world empty_disk))
     = Failure (FileReadError ''NotFound'') \<and>
   fst (program_detail sample_parse ascii_lower ''rex'' (fresh_world (disk_with ''[{'')))
     = Failure (FileReadError ''SyntaxError'')"
proof -
  have a: "fs (fresh_world empty_disk) ''data/dinosaurs.json'' = Inl ''NotFound''"
    by (simp add: fresh_world_def empty_disk_def)
  have b: "fs (fresh_world (disk_with ''[{'')) ''data/dinosaurs.json'' = Inr ''[{''"
    by (simp add: fresh_world_def disk_with_def)
  have c: "sample_parse ''[{'' = Inl ''SyntaxError''"
    by (simp add: sample_parse_def)
  have d: "fst (program_detail sample_parse ascii_lower ''rex'' (fresh_world empty_disk))
     = Failure (FileReadError ''NotFound'')"
    using a by (simp add: program_detail_eq)
  from detail_parse_failure_is_FileReadError
         [where JSON_parse = sample_parse and lc = ascii_lower and name = "''rex''", OF a b c]
  show ?thesis
    using a b c d by auto
qed

section \<open>The empty array\<close>

text \<open>
  Claim C10. A file that parses to the empty array passes the validation of the list
  endpoint; the program succeeds with the empty list, and the handler renders the
  same output as it renders whenever the program fails.
\<close>
theorem empty_array_file_lists_nothing:
  assumes "fs w ''data/dinosaurs.json'' = Inr content"
    and "JSON_parse content = Inr (JArr [])"
    and "fst (program_index JSON_parse' w') = Failure err"
  shows "(\<exists>m. validateDinoArray (JArr []) = Inr m \<and> m w = (Success (JArr []), w)) \<and>
         fst (program_index JSON_parse w) = Success (JArr []) \<and>
         fst (GET_index JSON_parse w) = Resolved (Rendered (JArr [])) \<and>
         fst (GET_index JSON_parse' w') = fst (GET_index JSON_parse w)"
  using assms
  by (simp add: validateDinoArray_array succeed_def GET_index_eq program_index_eq)

theorem empty_array_file_lists_nothing_witness:
  "fs (fresh_world (disk_with ''[]'')) ''data/dinosaurs.json'' = Inr ''[]'' \<and>
   sample_parse ''[]'' = Inr (JArr []) \<and>
   fst (program_index sample_parse (fresh_world empty_disk)) = Failure (FileReadError ''NotFound'') \<and>
   fst (GET_index sample_parse (fresh_world (disk_with ''[]''))) = Resolved (Rendered (JArr [])) \<and>
   fst (GET_index sample_parse (fresh_world empty_disk))
     = fst (GET_index sample_parse (fresh_world (disk_with ''[]'')))"
proof -
  have a: "fs (fresh_world (disk_with ''[]'')) ''data/dinosaurs.json'' = Inr ''[]''"
    by (simp add: fresh_world_def disk_with_def)
  have b: "sample_parse ''[]'' = Inr (JArr [])"
    by (simp add: sample_parse_def)
  have c: "fst (program_index sample_parse (fresh_world empty_disk)) = Failure (FileReadError ''NotFound'')"
    by (simp add: program_index_eq fresh_world_def empty_disk_def)
  from empty_array_file_lists_nothing [where JSON_parse = sample_parse, OF a b c]
  show ?thesis
    using a b c by blast
qed

section \<open>Failures that leave the detail handler\<close>

text \<open>
  Claim C1 says that no failure escapes either handler. Evaluated on a data file that
  holds the JSON object \<^verbatim>\<open>{}\<close>, and on a file whose second record has no name when a
  later name is requested, the detail handler rejects with the \<^verbatim>\<open>TypeError\<close> of the
  lookup, while the list handler renders the empty list for the same files.
\<close>
theorem detail_lookup_exception_escapes:
  "fst (GET_detail sample_parse ascii_lower ''rex'' (fresh_world (disk_with ''{}'')))
     = Rejected (FiberDefect TypeError) \<and>
   fst (GET_detail sample_parse ascii_lower ''amy'' (fresh_world (disk_with ''broken'')))
     = Rejected (FiberDefect TypeError) \<and>
   fst (GET_index sample_parse (fresh_world (disk_with ''{}''))) = Resolved (Rendered (JArr [])) \<and>
   fst (GET_index sample_parse (fresh_world (disk_with ''broken''))) = Resolved (Rendered (JArr []))"
  by (simp add: GET_detail_eq program_detail_eq GET_index_eq program_index_eq fresh_world_def
        disk_with_def sample_parse_def name_equals_def rex_def amy_def nameless_def ascii_lower_def
        is_DinoData_def text_field_def)

end
